theory Spec2Isabelle
  imports Main "HOL-Library.Word"
begin

unbundle bit_operations_syntax

section \<open>Data model of \<^verbatim>\<open>entt/core/memory.hpp\<close>\<close>

text \<open>
  \<^verbatim>\<open>std::size_t\<close> is an unsigned machine integer; it is taken at 64 bits. Subtraction
  wraps around, \<open>AND\<close> is the bitwise conjunction, \<open>mod\<close> is the unsigned remainder of
  C++'s \<^verbatim>\<open>%\<close>.
\<close>

type_synonym size_t = "64 word"

text \<open>
  The two ways in which the header can fail: a \<^verbatim>\<open>static_assert\<close> that rejects a template
  instantiation, and the runtime \<^verbatim>\<open>ENTT_ASSERT\<close>.
\<close>

datatype error = Static_assert_failure | Assertion_failure

text \<open>
  The template parameter \<^verbatim>\<open>Allocator\<close>. What the header asks of it are the three
  constants of \<^verbatim>\<open>std::allocator_traits<Allocator>\<close> (the \<^verbatim>\<open>::value\<close> of
  \<^verbatim>\<open>propagate_on_container_copy_assignment\<close>, \<^verbatim>\<open>propagate_on_container_move_assignment\<close>
  and \<^verbatim>\<open>propagate_on_container_swap\<close>), its \<^verbatim>\<open>operator==\<close>, and its move assignment, which
  hands the value of the source over and leaves the source in the state \<open>moved_from\<close>
  gives. The instances are values of type \<open>'a\<close>.
\<close>

record 'a allocator_type =
  pocca :: bool
  pocma :: bool
  pocs :: bool
  equal :: "'a \<Rightarrow> 'a \<Rightarrow> bool"
  moved_from :: "'a \<Rightarrow> 'a"

text \<open>
  A pointer value is a raw pointer, for which \<^verbatim>\<open>std::is_pointer_v\<close> holds, or an object of
  a class type (a fancy pointer). What \<^verbatim>\<open>operator->()\<close> of a fancy pointer returns is a
  parameter \<open>arrow\<close> of the functions below.
\<close>

datatype ('addr, 'obj) pointer = Raw 'addr | Fancy 'obj

section \<open>The functions\<close>

text \<open>
  \<^verbatim>\<open>to_address\<close>, lines 20-27. The recursion follows \<^verbatim>\<open>operator->()\<close> until a raw pointer
  is reached; nothing in the function bounds the number of steps, so a chain that never
  reaches a raw pointer yields \<open>None\<close>.
\<close>

partial_function (option) to_address ::
  "('obj \<Rightarrow> ('addr, 'obj) pointer) \<Rightarrow> ('addr, 'obj) pointer \<Rightarrow> 'addr option" where
  "to_address arrow ptr =
     (case ptr of
        Raw p \<Rightarrow> Some p
      | Fancy w \<Rightarrow> to_address arrow (arrow w))"

text \<open>
  The state of the three propagation functions is the pair of the values of the two
  allocator objects that \<^verbatim>\<open>lhs\<close> and \<^verbatim>\<open>rhs\<close> refer to, two objects of their own; each
  function returns the pair after the call. An assignment gives the destination the value
  of the source, a swap exchanges the two values.

  \<^verbatim>\<open>propagate_on_container_copy_assignment\<close>, lines 36-41.
\<close>

definition propagate_on_container_copy_assignment ::
  "'a allocator_type \<Rightarrow> 'a \<times> 'a \<Rightarrow> 'a \<times> 'a" where
  "propagate_on_container_copy_assignment A s =
     (case s of (lhs, rhs) \<Rightarrow> if pocca A then (rhs, rhs) else (lhs, rhs))"

text \<open>\<^verbatim>\<open>propagate_on_container_move_assignment\<close>, lines 50-55.\<close>

definition propagate_on_container_move_assignment ::
  "'a allocator_type \<Rightarrow> 'a \<times> 'a \<Rightarrow> 'a \<times> 'a" where
  "propagate_on_container_move_assignment A s =
     (case s of (lhs, rhs) \<Rightarrow> if pocma A then (rhs, moved_from A rhs) else (lhs, rhs))"

text \<open>
  Modelled from the spec: the macro \<^verbatim>\<open>ENTT_ASSERT\<close> is defined in \<^verbatim>\<open>config/config.h\<close>,
  which is not among the sources. The specification describes it as an assertion whose
  failure is fatal: the call does not return normally when the condition is false.
\<close>

definition ENTT_ASSERT :: "bool \<Rightarrow> error + unit" where
  "ENTT_ASSERT condition = (if condition then Inr () else Inl Assertion_failure)"

text \<open>\<^verbatim>\<open>propagate_on_container_swap\<close>, lines 64-73.\<close>

definition propagate_on_container_swap ::
  "'a allocator_type \<Rightarrow> 'a \<times> 'a \<Rightarrow> error + 'a \<times> 'a" where
  "propagate_on_container_swap A s =
     (case s of (lhs, rhs) \<Rightarrow>
        (case ENTT_ASSERT (pocs A \<or> equal A lhs rhs) of
           Inl e \<Rightarrow> Inl e
         | Inr _ \<Rightarrow> if pocs A then Inr (rhs, lhs) else Inr (lhs, rhs)))"

text \<open>\<^verbatim>\<open>is_power_of_two\<close> and \<^verbatim>\<open>is_power_of_two_v\<close>, lines 80-89.\<close>

definition is_power_of_two_v :: "size_t \<Rightarrow> bool" where
  "is_power_of_two_v Value \<longleftrightarrow> Value \<noteq> 0 \<and> (Value AND (Value - 1)) = 0"

text \<open>
  \<^verbatim>\<open>fast_mod\<close>, lines 98-102. The first argument is the template argument; an
  instantiation that the \<^verbatim>\<open>static_assert\<close> rejects has no runtime behaviour and is the
  error \<open>Static_assert_failure\<close>.
\<close>

definition fast_mod :: "size_t \<Rightarrow> size_t \<Rightarrow> error + size_t" where
  "fast_mod Value v =
     (if is_power_of_two_v Value then Inr (v AND (Value - 1)) else Inl Static_assert_failure)"

text \<open>The recursive equation of \<open>to_address\<close> is also its code equation.\<close>

declare to_address.simps [code]

text \<open>
  The precondition of \<^verbatim>\<open>to_address\<close>: the indirection chain of its argument is finite and
  ends in a raw pointer. \<open>chain arrow n ptr p\<close> holds when \<open>ptr\<close> is \<open>n\<close> steps of
  \<^verbatim>\<open>operator->()\<close> away from the raw pointer \<open>p\<close>; a raw pointer is zero steps away from
  itself.
\<close>

fun chain ::
  "('obj \<Rightarrow> ('addr, 'obj) pointer) \<Rightarrow> nat \<Rightarrow> ('addr, 'obj) pointer \<Rightarrow> 'addr \<Rightarrow> bool" where
  "chain arrow n (Raw q) p \<longleftrightarrow> n = 0 \<and> q = p"
| "chain arrow 0 (Fancy w) p \<longleftrightarrow> False"
| "chain arrow (Suc n) (Fancy w) p \<longleftrightarrow> chain arrow n (arrow w) p"

section \<open>Powers of two and masks\<close>

text \<open>
  A positive natural number that shares no bit with its predecessor is a power of two:
  by induction on the number, halving it.
\<close>

lemma nat_pow2_AND_pred:
  fixes n :: nat
  assumes "0 < n" and "n AND (n - 1) = 0"
  shows "\<exists>k. n = 2 ^ k"
  using assms
proof (induction n rule: less_induct)
  case (less n)
  show ?case
  proof (cases "even n")
    case True
    then obtain m where m: "n = 2 * m" by (elim evenE)
    with less.prems have mpos: "0 < m" by simp
    then have pred: "n - 1 = 2 * (m - 1) + 1" using m by simp
    have "n AND (n - 1) = 2 * (m AND (m - 1))"
      unfolding pred unfolding m
      by (simp add: and_nat_rec [of "2 * m"] )
    with less.prems have "m AND (m - 1) = 0" by simp
    moreover have "m < n" using m mpos by simp
    ultimately obtain k where "m = 2 ^ k" using less.IH mpos by blast
    then have "n = 2 ^ Suc k" using m by simp
    then show ?thesis by blast
  next
    case False
    then obtain m where m: "n = 2 * m + 1" by (elim oddE)
    have "(2 * m + 1) AND (2 * m) = 2 * (m AND m)"
      by (subst and_nat_rec) simp
    with m have "n AND (n - 1) = 2 * m" by simp
    with less.prems have "m = 0" by simp
    then have "n = 2 ^ 0" using m by simp
    then show ?thesis by blast
  qed
qed

text \<open>The same on machine words of any width, and the converse.\<close>

lemma word_pow2_AND_pred:
  fixes V :: "'a::len word"
  assumes "V \<noteq> 0" and "V AND (V - 1) = 0"
  shows "\<exists>k<LENGTH('a). V = 2 ^ k"
proof -
  have pos: "0 < unat V" using assms(1) by (simp add: unat_gt_0)
  have "unat (V AND (V - 1)) = unat V AND unat (V - 1)"
    by (simp add: unsigned_and_eq)
  also have "unat (V - 1) = unat V - 1"
    using assms(1) by (simp add: unat_minus_one)
  finally have "unat V AND (unat V - 1) = 0" using assms(2) by simp
  with pos obtain k where k: "unat V = 2 ^ k" using nat_pow2_AND_pred by blast
  have "unat V < 2 ^ LENGTH('a)" by (rule unsigned_less)
  with k have kl: "k < LENGTH('a)" by simp
  have "V = word_of_nat (unat V)" by simp
  also have "\<dots> = 2 ^ k" unfolding k by simp
  finally show ?thesis using kl by blast
qed

lemma word_pow2_AND_mask: "(2 ^ k :: 'a::len word) AND (2 ^ k - 1) = 0"
  unfolding mask_eq_exp_minus_1 [symmetric]
  by (rule bit_word_eqI) (auto simp: bit_simps)

text \<open>Masking with the predecessor of a power of two is the remainder.\<close>

lemma word_AND_pow2_pred_eq_mod:
  fixes v :: "'a::len word"
  assumes "k < LENGTH('a)"
  shows "v AND (2 ^ k - 1) = v mod 2 ^ k"
proof -
  have "(0 :: 'a word) < 2 ^ k" using assms by (simp add: word_gt_0)
  then have "v mod 2 ^ k = v AND mask k" by (rule word_mod_2p_is_mask)
  then show ?thesis by (simp add: mask_eq_exp_minus_1)
qed

text \<open>Read as natural numbers, the powers of two below the width are themselves.\<close>

lemma unat_exp:
  assumes "k < LENGTH('a)"
  shows "unat (2 ^ k :: 'a::len word) = 2 ^ k"
proof -
  have "unat (word_of_nat (2 ^ k) :: 'a word) = 2 ^ k mod 2 ^ LENGTH('a)"
    by (rule unat_of_nat)
  also have "\<dots> = 2 ^ k" using assms by simp
  finally show ?thesis by simp
qed

lemma word_pow2_iff_unat_pow2:
  fixes V :: "'a::len word"
  shows "(\<exists>k<LENGTH('a). V = 2 ^ k) \<longleftrightarrow> (\<exists>k. unat V = 2 ^ k)"
proof
  assume "\<exists>k<LENGTH('a). V = 2 ^ k"
  then obtain k where "k < LENGTH('a)" and "V = 2 ^ k" by blast
  then have "unat V = 2 ^ k" by (simp add: unat_exp)
  then show "\<exists>k. unat V = 2 ^ k" by blast
next
  assume "\<exists>k. unat V = 2 ^ k"
  then obtain k where k: "unat V = 2 ^ k" by blast
  have "unat V < 2 ^ LENGTH('a)" by (rule unsigned_less)
  with k have kl: "k < LENGTH('a)" by simp
  have "V = word_of_nat (unat V)" by simp
  also have "\<dots> = 2 ^ k" unfolding k by simp
  finally show "\<exists>k<LENGTH('a). V = 2 ^ k" using kl by blast
qed

section \<open>The power-of-two test and the fast modulus\<close>

lemma is_power_of_two_v_exp: "k < 64 \<Longrightarrow> is_power_of_two_v (2 ^ k)"
  by (simp add: is_power_of_two_v_def word_pow2_AND_mask)

lemma is_power_of_two_v_expD: "is_power_of_two_v V \<Longrightarrow> \<exists>k<64. V = 2 ^ k"
  using word_pow2_AND_pred [of V] by (simp add: is_power_of_two_v_def)

lemma fast_mod_exp: "k < 64 \<Longrightarrow> fast_mod (2 ^ k) v = Inr (v mod 2 ^ k)"
  by (simp add: fast_mod_def is_power_of_two_v_exp word_AND_pow2_pred_eq_mod)

lemma unat_mod_exp:
  fixes v :: size_t
  shows "k < 64 \<Longrightarrow> unat (v mod 2 ^ k) = unat v mod 2 ^ k"
  by (simp add: unat_mod_distrib unat_exp)

text \<open>
  Claim C1. For every divisor that is a power of two, \<open>2 ^ k\<close> with \<open>k < 64\<close>, and every
  value \<open>v\<close>, \<open>fast_mod\<close> returns the unsigned remainder \<open>v mod 2 ^ k\<close>, which read as a
  natural number is the remainder of the natural numbers; and \<open>fast_mod<16>\<close> maps 37 to 5,
  16 to 0 and 0 to 0.
\<close>

theorem fast_mod_eq_mod:
  assumes "k < 64"
  shows "fast_mod (2 ^ k) v = Inr (v mod 2 ^ k)
    \<and> (\<exists>r. fast_mod (2 ^ k) v = Inr r \<and> unat r = unat v mod 2 ^ k)
    \<and> fast_mod 16 37 = Inr 5 \<and> fast_mod 16 16 = Inr 0 \<and> fast_mod 16 0 = Inr 0"
proof -
  have general: "fast_mod (2 ^ k) v = Inr (v mod 2 ^ k)"
    using assms by (rule fast_mod_exp)
  have "unat (v mod 2 ^ k) = unat v mod 2 ^ k"
    using assms by (rule unat_mod_exp)
  with general have nat: "\<exists>r. fast_mod (2 ^ k) v = Inr r \<and> unat r = unat v mod 2 ^ k"
    by simp
  have "fast_mod (2 ^ 4) w = Inr (w mod 2 ^ 4)" for w
    by (rule fast_mod_exp) simp
  then have sixteen: "fast_mod 16 w = Inr (w mod 16)" for w
    by simp
  have "fast_mod 16 37 = Inr 5" "fast_mod 16 16 = Inr 0" "fast_mod 16 0 = Inr 0"
    by (simp_all add: sixteen)
  with general nat show ?thesis by simp
qed

theorem fast_mod_eq_mod_witness:
  "(4 :: nat) < 64 \<and> fast_mod (2 ^ 4) 37 = Inr (37 mod 2 ^ 4) \<and> fast_mod 16 37 = Inr 5"
  using fast_mod_eq_mod [of 4 37] by simp

text \<open>
  Claim C7. \<open>is_power_of_two_v\<close> holds exactly for the powers of two: of a word \<open>V\<close> it is
  true if and only if \<open>V = 2 ^ k\<close> for some \<open>k < 64\<close>, which is to say that the number \<open>V\<close>
  stands for is \<open>2 ^ k\<close> for some \<open>k\<close>. Zero is rejected, and \<open>fast_mod\<close> reaches its mask
  exactly for the powers of two: every other divisor is the static assertion's failure.
\<close>

theorem is_power_of_two_v_iff:
  "(is_power_of_two_v V \<longleftrightarrow> (\<exists>k<64. V = 2 ^ k))
   \<and> (is_power_of_two_v V \<longleftrightarrow> (\<exists>k. unat V = 2 ^ k))
   \<and> \<not> is_power_of_two_v 0
   \<and> ((\<exists>r. fast_mod V v = Inr r) \<longleftrightarrow> (\<exists>k. unat V = 2 ^ k))
   \<and> (fast_mod V v = Inl Static_assert_failure \<longleftrightarrow> \<not> (\<exists>k. unat V = 2 ^ k))"
proof -
  have word: "is_power_of_two_v V \<longleftrightarrow> (\<exists>k<64. V = 2 ^ k)"
    using is_power_of_two_v_expD [of V] is_power_of_two_v_exp by blast
  have nat: "is_power_of_two_v V \<longleftrightarrow> (\<exists>k. unat V = 2 ^ k)"
    using word word_pow2_iff_unat_pow2 [of V] by simp
  have zero: "\<not> is_power_of_two_v 0"
    by (simp add: is_power_of_two_v_def)
  have ok: "(\<exists>r. fast_mod V v = Inr r) \<longleftrightarrow> is_power_of_two_v V"
    by (simp add: fast_mod_def)
  have err: "fast_mod V v = Inl Static_assert_failure \<longleftrightarrow> \<not> is_power_of_two_v V"
    by (simp add: fast_mod_def)
  show ?thesis
    using word zero ok err unfolding nat by simp
qed

theorem is_power_of_two_v_iff_witness:
  "is_power_of_two_v 16 \<and> \<not> is_power_of_two_v 12
   \<and> \<not> (\<exists>k. unat (12 :: size_t) = 2 ^ k)
   \<and> fast_mod 12 5 = Inl Static_assert_failure"
proof -
  note sixteen = is_power_of_two_v_iff [of 16 5]
  note twelve = is_power_of_two_v_iff [of 12 5]
  have "\<exists>k<64. (16 :: size_t) = 2 ^ k"
    by (rule exI [of _ 4]) simp
  with sixteen have a: "is_power_of_two_v 16" by blast
  have b: "\<not> is_power_of_two_v 12"
    by (simp add: is_power_of_two_v_def)
  with twelve have c: "\<not> (\<exists>k. unat (12 :: size_t) = 2 ^ k)" by blast
  with twelve have "fast_mod 12 5 = Inl Static_assert_failure" by blast
  with a b c show ?thesis by blast
qed

section \<open>Resolving addresses\<close>

text \<open>One unfolding of the recursion for each kind of pointer.\<close>

lemma to_address_Raw: "to_address arrow (Raw p) = Some p"
  by (subst to_address.simps) simp

lemma to_address_Fancy: "to_address arrow (Fancy w) = to_address arrow (arrow w)"
  by (subst to_address.simps) simp

text \<open>A chain of any depth resolves to the raw pointer at its end, and has one depth only.\<close>

lemma to_address_chain:
  "chain arrow n ptr p \<Longrightarrow> to_address arrow ptr = Some p"
proof (induction arrow n ptr p rule: chain.induct)
  case (1 arrow n q p)
  then show ?case by (simp add: to_address_Raw)
next
  case (2 arrow w p)
  then show ?case by simp
next
  case (3 arrow n w p)
  then show ?case by (simp add: to_address_Fancy)
qed

lemma chain_unique:
  "chain arrow n ptr p \<Longrightarrow> chain arrow m ptr q \<Longrightarrow> n = m \<and> p = q"
proof (induction arrow n ptr p arbitrary: m rule: chain.induct)
  case (1 arrow n q' p)
  then show ?case by simp
next
  case (2 arrow w p)
  then show ?case by simp
next
  case (3 arrow n w p)
  then show ?case by (cases m) auto
qed

text \<open>
  Conversely \<open>to_address\<close> returns only on a finite chain; a fancy pointer whose
  \<^verbatim>\<open>operator->()\<close> returns the pointer itself never resolves.
\<close>

lemma to_address_Some_chain:
  assumes "to_address arrow ptr = Some p"
  shows "\<exists>n. chain arrow n ptr p"
  using assms
proof (induction arrow ptr p rule: to_address.raw_induct [rotated 1, consumes 1])
  case (1 to_address' arrow ptr p)
  show ?case
  proof (cases ptr)
    case (Raw q)
    with 1 have "chain arrow 0 ptr p" by simp
    then show ?thesis ..
  next
    case (Fancy w)
    with 1(2) have "to_address' arrow (arrow w) = Some p" by simp
    then have "\<exists>n. chain arrow n (arrow w) p" by (rule 1(1))
    then obtain n where "chain arrow n (arrow w) p" ..
    with Fancy have "chain arrow (Suc n) ptr p" by simp
    then show ?thesis ..
  qed
qed

lemma to_address_loop: "arrow w = Fancy w \<Longrightarrow> to_address arrow (Fancy w) = None"
proof (rule ccontr)
  assume a: "arrow w = Fancy w" and "to_address arrow (Fancy w) \<noteq> None"
  then obtain p where "to_address arrow (Fancy w) = Some p" by auto
  then obtain n where "chain arrow n (Fancy w) p" using to_address_Some_chain by fastforce
  then show False using a by (induction n) auto
qed

text \<open>
  Claim C6. \<open>to_address\<close> of a raw pointer is that pointer. Of a fancy pointer \<open>w\<close> that
  wraps the raw pointer \<open>p\<close> at any depth \<open>n\<close> it is \<open>p\<close>, so two wrappers of the same raw
  pointer resolve to the same address whatever their depths, and wrapping a pointer once
  more does not change the address it resolves to.
\<close>

theorem to_address_resolves:
  "to_address arrow (Raw p) = Some p
   \<and> (chain arrow n w p \<longrightarrow> to_address arrow w = Some p)
   \<and> (chain arrow n w p \<and> chain arrow m w' p \<longrightarrow> to_address arrow w' = to_address arrow w)
   \<and> to_address arrow (Fancy v) = to_address arrow (arrow v)"
proof -
  have raw: "to_address arrow (Raw p) = Some p"
    by (rule to_address_Raw)
  have one: "chain arrow k x p \<Longrightarrow> to_address arrow x = Some p" for k x
    by (rule to_address_chain)
  have step: "to_address arrow (Fancy v) = to_address arrow (arrow v)"
    by (rule to_address_Fancy)
  from one [of n w] one [of m w'] raw step show ?thesis by simp
qed

theorem to_address_resolves_witness:
  "chain (\<lambda>w :: nat. if w = 0 then Raw (42 :: nat) else Fancy (w - 1)) (Suc (Suc 0)) (Fancy 1) 42
   \<and> chain (\<lambda>w :: nat. if w = 0 then Raw (42 :: nat) else Fancy (w - 1)) (Suc 0) (Fancy 0) 42
   \<and> to_address (\<lambda>w :: nat. if w = 0 then Raw (42 :: nat) else Fancy (w - 1)) (Fancy 1) = Some 42
   \<and> to_address (\<lambda>w :: nat. if w = 0 then Raw (42 :: nat) else Fancy (w - 1)) (Fancy 0) = Some 42"
  using to_address_resolves
    [of "\<lambda>w :: nat. if w = 0 then Raw (42 :: nat) else Fancy (w - 1)" 42 "Suc (Suc 0)" "Fancy 1"
      "Suc 0" "Fancy 0"]
  by simp

text \<open>
  Claim C8. On an argument whose chain is finite and ends in a raw pointer, \<open>to_address\<close>
  returns. The depth of the chain is the measure: it is determined by the argument, and
  what \<^verbatim>\<open>operator->()\<close> returns, the argument of the recursive call, has a chain to the same
  raw pointer of strictly smaller depth.
\<close>

theorem to_address_terminates:
  assumes "chain arrow n ptr p"
  shows "(\<exists>q. to_address arrow ptr = Some q)
    \<and> (\<forall>w. ptr = Fancy w \<longrightarrow> (\<exists>m. m < n \<and> chain arrow m (arrow w) p))
    \<and> (\<forall>m q. chain arrow m ptr q \<longrightarrow> m = n \<and> q = p)"
proof -
  from assms have "to_address arrow ptr = Some p"
    by (rule to_address_chain)
  then have returns: "\<exists>q. to_address arrow ptr = Some q" ..
  have decreases: "\<exists>m. m < n \<and> chain arrow m (arrow w) p" if "ptr = Fancy w" for w
  proof (cases n)
    case 0
    with assms that show ?thesis by simp
  next
    case (Suc k)
    with assms that have "k < n \<and> chain arrow k (arrow w) p" by simp
    then show ?thesis ..
  qed
  have depth: "m = n \<and> q = p" if "chain arrow m ptr q" for m q
    using chain_unique [OF that assms] .
  from returns decreases depth show ?thesis by blast
qed

theorem to_address_terminates_witness:
  "chain (\<lambda>w :: nat. if w = 0 then Raw (7 :: nat) else Fancy (w - 1)) (Suc (Suc (Suc 0))) (Fancy 2) 7
   \<and> (\<exists>q. to_address (\<lambda>w :: nat. if w = 0 then Raw (7 :: nat) else Fancy (w - 1)) (Fancy 2) = Some q)"
proof -
  have c: "chain (\<lambda>w :: nat. if w = 0 then Raw (7 :: nat) else Fancy (w - 1)) (Suc (Suc (Suc 0))) (Fancy 2) 7"
    by simp
  from to_address_terminates [OF c] c show ?thesis by blast
qed

section \<open>Propagating allocators\<close>

text \<open>
  Claim C3. When the allocator type declares \<^verbatim>\<open>propagate_on_container_copy_assignment\<close>,
  after the call \<open>lhs\<close> has the value of \<open>rhs\<close>: the two are the same value, and they
  compare equal under any reflexive \<^verbatim>\<open>operator==\<close>. When it does not, \<open>lhs\<close> keeps its
  value. So for allocators of different values, \<open>lhs\<close> takes the value of \<open>rhs\<close> if and
  only if the trait is declared.
\<close>

theorem propagate_on_container_copy_assignment_lhs:
  "(pocca A \<longrightarrow>
      fst (propagate_on_container_copy_assignment A (lhs, rhs)) = rhs
      \<and> fst (propagate_on_container_copy_assignment A (lhs, rhs))
          = snd (propagate_on_container_copy_assignment A (lhs, rhs))
      \<and> ((\<forall>x. equal A x x) \<longrightarrow>
           equal A (fst (propagate_on_container_copy_assignment A (lhs, rhs)))
             (snd (propagate_on_container_copy_assignment A (lhs, rhs)))))
   \<and> (\<not> pocca A \<longrightarrow> fst (propagate_on_container_copy_assignment A (lhs, rhs)) = lhs)
   \<and> (lhs \<noteq> rhs \<longrightarrow>
        (fst (propagate_on_container_copy_assignment A (lhs, rhs)) = rhs \<longleftrightarrow> pocca A))"
  by (simp add: propagate_on_container_copy_assignment_def)

theorem propagate_on_container_copy_assignment_lhs_witness:
  "pocca \<lparr>pocca = True, pocma = False, pocs = False, equal = (=), moved_from = (\<lambda>x :: nat. x)\<rparr>
   \<and> (\<forall>x. equal \<lparr>pocca = True, pocma = False, pocs = False, equal = (=), moved_from = (\<lambda>x :: nat. x)\<rparr> x x)
   \<and> (1 :: nat) \<noteq> 2
   \<and> \<not> pocca \<lparr>pocca = False, pocma = False, pocs = False, equal = (=), moved_from = (\<lambda>x :: nat. x)\<rparr>
   \<and> fst (propagate_on_container_copy_assignment
        \<lparr>pocca = True, pocma = False, pocs = False, equal = (=), moved_from = (\<lambda>x :: nat. x)\<rparr> (1, 2)) = 2
   \<and> fst (propagate_on_container_copy_assignment
        \<lparr>pocca = False, pocma = False, pocs = False, equal = (=), moved_from = (\<lambda>x :: nat. x)\<rparr> (1, 2)) = 1"
  using propagate_on_container_copy_assignment_lhs
    [of "\<lparr>pocca = True, pocma = False, pocs = False, equal = (=), moved_from = (\<lambda>x :: nat. x)\<rparr>" 1 2]
    propagate_on_container_copy_assignment_lhs
    [of "\<lparr>pocca = False, pocma = False, pocs = False, equal = (=), moved_from = (\<lambda>x :: nat. x)\<rparr>" 1 2]
  by simp

text \<open>
  Claim C10. \<open>propagate_on_container_copy_assignment\<close> leaves \<open>rhs\<close> as it was, whatever
  the trait says.
\<close>

theorem propagate_on_container_copy_assignment_rhs:
  "snd (propagate_on_container_copy_assignment A (lhs, rhs)) = rhs"
  by (simp add: propagate_on_container_copy_assignment_def)

text \<open>
  Claim C4. When the allocator type declares \<^verbatim>\<open>propagate_on_container_move_assignment\<close>,
  after the call \<open>lhs\<close> has the value that \<open>rhs\<close> had before it. When it does not, the
  call changes neither \<open>lhs\<close> nor \<open>rhs\<close>.
\<close>

theorem propagate_on_container_move_assignment_lhs:
  "(pocma A \<longrightarrow> fst (propagate_on_container_move_assignment A (lhs, rhs)) = rhs)
   \<and> (\<not> pocma A \<longrightarrow> propagate_on_container_move_assignment A (lhs, rhs) = (lhs, rhs))"
  by (simp add: propagate_on_container_move_assignment_def)

theorem propagate_on_container_move_assignment_lhs_witness:
  "pocma \<lparr>pocca = False, pocma = True, pocs = False, equal = (=), moved_from = (\<lambda>x :: nat. 0)\<rparr>
   \<and> \<not> pocma \<lparr>pocca = False, pocma = False, pocs = False, equal = (=), moved_from = (\<lambda>x :: nat. 0)\<rparr>
   \<and> fst (propagate_on_container_move_assignment
        \<lparr>pocca = False, pocma = True, pocs = False, equal = (=), moved_from = (\<lambda>x :: nat. 0)\<rparr> (1, 2)) = 2
   \<and> propagate_on_container_move_assignment
        \<lparr>pocca = False, pocma = False, pocs = False, equal = (=), moved_from = (\<lambda>x :: nat. 0)\<rparr> (1, 2) = (1, 2)"
  using propagate_on_container_move_assignment_lhs
    [of "\<lparr>pocca = False, pocma = True, pocs = False, equal = (=), moved_from = (\<lambda>x :: nat. 0)\<rparr>" 1 2]
    propagate_on_container_move_assignment_lhs
    [of "\<lparr>pocca = False, pocma = False, pocs = False, equal = (=), moved_from = (\<lambda>x :: nat. 0)\<rparr>" 1 2]
  by simp

text \<open>The two cases of \<open>propagate_on_container_swap\<close>, by the trait.\<close>

lemma propagate_on_container_swap_enabled:
  "pocs A \<Longrightarrow> propagate_on_container_swap A (lhs, rhs) = Inr (rhs, lhs)"
  by (simp add: propagate_on_container_swap_def ENTT_ASSERT_def)

lemma propagate_on_container_swap_disabled:
  "\<not> pocs A \<Longrightarrow> propagate_on_container_swap A (lhs, rhs) =
     (if equal A lhs rhs then Inr (lhs, rhs) else Inl Assertion_failure)"
  by (simp add: propagate_on_container_swap_def ENTT_ASSERT_def)

text \<open>
  Claim C5. When the allocator type declares \<^verbatim>\<open>propagate_on_container_swap\<close>, one call
  exchanges the two values, and a second call on the result of the first restores both.
\<close>

theorem propagate_on_container_swap_involution:
  assumes "pocs A"
  shows "propagate_on_container_swap A (a, b) = Inr (b, a)
    \<and> (case propagate_on_container_swap A (a, b) of
          Inl e \<Rightarrow> Inl e
        | Inr s \<Rightarrow> propagate_on_container_swap A s) = Inr (a, b)"
  using assms by (simp add: propagate_on_container_swap_enabled)

theorem propagate_on_container_swap_involution_witness:
  "pocs \<lparr>pocca = False, pocma = False, pocs = True, equal = (=), moved_from = (\<lambda>x :: nat. x)\<rparr>
   \<and> propagate_on_container_swap
        \<lparr>pocca = False, pocma = False, pocs = True, equal = (=), moved_from = (\<lambda>x :: nat. x)\<rparr> (1, 2)
       = Inr (2, 1)
   \<and> (case propagate_on_container_swap
        \<lparr>pocca = False, pocma = False, pocs = True, equal = (=), moved_from = (\<lambda>x :: nat. x)\<rparr> (1, 2) of
          Inl e \<Rightarrow> Inl e
        | Inr s \<Rightarrow> propagate_on_container_swap
            \<lparr>pocca = False, pocma = False, pocs = True, equal = (=), moved_from = (\<lambda>x :: nat. x)\<rparr> s)
       = Inr (1, 2)"
  using propagate_on_container_swap_involution
    [of "\<lparr>pocca = False, pocma = False, pocs = True, equal = (=), moved_from = (\<lambda>x :: nat. x)\<rparr>" 1 2]
  by auto

text \<open>
  Claim C2. When the allocator type does not declare \<^verbatim>\<open>propagate_on_container_swap\<close>:
  on allocators that compare equal the call returns and changes neither, on allocators
  that do not it fails with the assertion. The call fails exactly when the trait is not
  declared and the allocators compare unequal.
\<close>

theorem propagate_on_container_swap_disabled_assert:
  "(\<not> pocs A \<and> equal A lhs rhs \<longrightarrow> propagate_on_container_swap A (lhs, rhs) = Inr (lhs, rhs))
   \<and> (\<not> pocs A \<and> \<not> equal A lhs rhs \<longrightarrow>
        propagate_on_container_swap A (lhs, rhs) = Inl Assertion_failure)
   \<and> ((\<exists>e. propagate_on_container_swap A (lhs, rhs) = Inl e) \<longleftrightarrow>
        \<not> pocs A \<and> \<not> equal A lhs rhs)"
proof (cases "pocs A")
  case True
  then show ?thesis by (simp add: propagate_on_container_swap_enabled)
next
  case False
  then show ?thesis by (simp add: propagate_on_container_swap_disabled)
qed

theorem propagate_on_container_swap_disabled_assert_witness:
  "\<not> pocs \<lparr>pocca = False, pocma = False, pocs = False, equal = (=), moved_from = (\<lambda>x :: nat. x)\<rparr>
   \<and> equal \<lparr>pocca = False, pocma = False, pocs = False, equal = (=), moved_from = (\<lambda>x :: nat. x)\<rparr> 3 3
   \<and> \<not> equal \<lparr>pocca = False, pocma = False, pocs = False, equal = (=), moved_from = (\<lambda>x :: nat. x)\<rparr> 1 2
   \<and> propagate_on_container_swap
        \<lparr>pocca = False, pocma = False, pocs = False, equal = (=), moved_from = (\<lambda>x :: nat. x)\<rparr> (3, 3)
       = Inr (3, 3)
   \<and> propagate_on_container_swap
        \<lparr>pocca = False, pocma = False, pocs = False, equal = (=), moved_from = (\<lambda>x :: nat. x)\<rparr> (1, 2)
       = Inl Assertion_failure"
  using propagate_on_container_swap_disabled_assert
    [of "\<lparr>pocca = False, pocma = False, pocs = False, equal = (=), moved_from = (\<lambda>x :: nat. x)\<rparr>" 3 3]
    propagate_on_container_swap_disabled_assert
    [of "\<lparr>pocca = False, pocma = False, pocs = False, equal = (=), moved_from = (\<lambda>x :: nat. x)\<rparr>" 1 2]
  by simp

text \<open>
  Claim C9. When the allocator type declares \<^verbatim>\<open>propagate_on_container_swap\<close>, the asserted
  condition holds whether or not the allocators compare equal, and the call returns
  without any failure.
\<close>

theorem propagate_on_container_swap_enabled_no_assert:
  assumes "pocs A"
  shows "ENTT_ASSERT (pocs A \<or> equal A lhs rhs) = Inr ()
    \<and> (\<forall>e. propagate_on_container_swap A (lhs, rhs) \<noteq> Inl e)
    \<and> (\<exists>s. propagate_on_container_swap A (lhs, rhs) = Inr s)"
  using assms by (simp add: propagate_on_container_swap_enabled ENTT_ASSERT_def)

theorem propagate_on_container_swap_enabled_no_assert_witness:
  "pocs \<lparr>pocca = False, pocma = False, pocs = True, equal = (=), moved_from = (\<lambda>x :: nat. x)\<rparr>
   \<and> \<not> equal \<lparr>pocca = False, pocma = False, pocs = True, equal = (=), moved_from = (\<lambda>x :: nat. x)\<rparr> 1 2
   \<and> (\<forall>e. propagate_on_container_swap
        \<lparr>pocca = False, pocma = False, pocs = True, equal = (=), moved_from = (\<lambda>x :: nat. x)\<rparr> (1, 2)
       \<noteq> Inl e)"
  using propagate_on_container_swap_enabled_no_assert
    [of "\<lparr>pocca = False, pocma = False, pocs = True, equal = (=), moved_from = (\<lambda>x :: nat. x)\<rparr>" 1 2]
  by simp

end
